theory Spec2Isabelle
  imports Main
begin

section \<open>Python text and numbers\<close>

text \<open>
  The bot of \<^verbatim>\<open>src/telegram_bot.py\<close> (class \<^verbatim>\<open>IVASMSTelegramBot\<close>) is embedded
  function by function. A Python \<^verbatim>\<open>str\<close> is a \<^typ>\<open>string\<close>, one \<^typ>\<open>char\<close> per
  character; the emoji of the literal reply templates, which lie outside the 256 values
  of \<^typ>\<open>char\<close>, are written as their UTF-8 bytes. A Python \<^verbatim>\<open>int\<close> is an \<^typ>\<open>int\<close>.
\<close>

definition backslash :: char where
  "backslash = CHR 0x5C"

definition backtick :: char where
  "backtick = CHR 0x60"

text \<open>
  \<^verbatim>\<open>str.replace(old, new)\<close>: the occurrences of \<open>old\<close> are replaced from left to right,
  without overlap; with an empty \<open>old\<close>, \<open>new\<close> is put before every character and at
  the end.
\<close>

function str_replace :: "string \<Rightarrow> string \<Rightarrow> string \<Rightarrow> string" where
  "str_replace old new s =
     (if old = [] then new @ concat (map (\<lambda>c. c # new) s)
      else if s = [] then []
      else if take (length old) s = old
        then new @ str_replace old new (drop (length old) s)
      else hd s # str_replace old new (tl s))"
  by pat_completeness auto
termination
  by (relation "measure (\<lambda>(old, new, s). length s)") auto

declare str_replace.simps [simp del]

text \<open>\<^verbatim>\<open>str(n)\<close> for an integer: the decimal digits, with a minus sign when negative.\<close>

definition digit_char :: "nat \<Rightarrow> char" where
  "digit_char n = ''0123456789'' ! n"

function str_nat :: "nat \<Rightarrow> string" where
  "str_nat n = (if n < 10 then [digit_char n] else str_nat (n div 10) @ [digit_char (n mod 10)])"
  by pat_completeness auto
termination
  by (relation "measure id") auto

declare str_nat.simps [simp del]

definition str_int :: "int \<Rightarrow> string" where
  "str_int i = (if i < 0 then CHR ''-'' # str_nat (nat (- i)) else str_nat (nat i))"

text \<open>
  \<^verbatim>\<open>int(s)\<close> in base 10. Surrounding whitespace is stripped: the six ASCII characters of
  C's \<^verbatim>\<open>isspace\<close>, and the Unicode spaces above ASCII, of which \<^typ>\<open>char\<close> has \<open>0x85\<close> and
  \<open>0xA0\<close> (the separators \<open>0x1C\<close> to \<open>0x1F\<close> are not stripped). One sign is allowed, and the
  digits may be grouped by single underscores. A text with more than 4300 digits is refused,
  the default limit of the conversion. \<open>None\<close> stands for the \<^verbatim>\<open>ValueError\<close>. (Decimal digits
  of other scripts are outside \<^typ>\<open>char\<close>.)
\<close>

definition is_space :: "char \<Rightarrow> bool" where
  "is_space c =
     (c \<in> set [CHR 0x20, CHR 0x09, CHR 0x0A, CHR 0x0B, CHR 0x0C, CHR 0x0D,
               CHR 0x85, CHR 0xA0])"

definition strip :: "string \<Rightarrow> string" where
  "strip s = rev (dropWhile is_space (rev (dropWhile is_space s)))"

definition is_digit :: "char \<Rightarrow> bool" where
  "is_digit c = (c \<in> set ''0123456789'')"

definition digit_val :: "char \<Rightarrow> nat" where
  "digit_val c = of_char c - 48"

fun parse_digits :: "nat \<Rightarrow> string \<Rightarrow> nat option" where
  "parse_digits acc [] = Some acc"
| "parse_digits acc (c # cs) =
     (if is_digit c then parse_digits (10 * acc + digit_val c) cs
      else if c = CHR ''_'' then
        (case cs of
           [] \<Rightarrow> None
         | d # ds \<Rightarrow> if is_digit d then parse_digits (10 * acc + digit_val d) ds else None)
      else None)"

definition parse_unsigned :: "string \<Rightarrow> nat option" where
  "parse_unsigned s =
     (case s of
        [] \<Rightarrow> None
      | c # cs \<Rightarrow> if is_digit c then parse_digits (digit_val c) cs else None)"

definition max_str_digits :: nat where
  "max_str_digits = 4300"

definition py_int :: "string \<Rightarrow> int option" where
  "py_int s =
     (if length (filter is_digit (strip s)) > max_str_digits then None
      else case strip s of
        [] \<Rightarrow> None
      | c # cs \<Rightarrow>
          if c = CHR ''-'' then map_option (\<lambda>n. - int n) (parse_unsigned cs)
          else if c = CHR ''+'' then map_option int (parse_unsigned cs)
          else map_option int (parse_unsigned (c # cs)))"

text \<open>
  The slice \<^verbatim>\<open>xs[i:]\<close>: a negative start counts from the end and is clipped at the
  beginning of the list, a start past the end gives the empty list.
\<close>

definition py_slice_from :: "int \<Rightarrow> 'a list \<Rightarrow> 'a list" where
  "py_slice_from i xs =
     (let n = int (length xs);
          start = (if i < 0 then max 0 (n + i) else min i n)
      in drop (nat start) xs)"

text \<open>
  A \<^verbatim>\<open>datetime\<close> is its number of microseconds on the local clock. The difference of two
  is a \<^verbatim>\<open>timedelta\<close>, normalised as Python does: the days may be negative, the seconds
  lie in \<open>0..86399\<close> and the microseconds in \<open>0..999999\<close>.
\<close>

type_synonym datetime = int

record timedelta =
  td_days :: int
  td_seconds :: int
  td_microseconds :: int

definition datetime_sub :: "datetime \<Rightarrow> datetime \<Rightarrow> timedelta" where
  "datetime_sub a b =
     (let us = a - b
      in \<lparr>td_days = us div 86400000000,
          td_seconds = (us mod 86400000000) div 1000000,
          td_microseconds = us mod 1000000\<rparr>)"

section \<open>Exceptions, effects and the bot's surroundings\<close>

text \<open>
  \<open>Exception msg\<close> is an instance of \<^verbatim>\<open>Exception\<close> (or of a subclass) whose \<^verbatim>\<open>str\<close> is
  \<open>msg\<close>; \<open>BaseException msg\<close> is one that \<^verbatim>\<open>except Exception\<close> does not catch.
\<close>

datatype exn = Exception string | BaseException string

fun exn_str :: "exn \<Rightarrow> string" where
  "exn_str (Exception msg) = msg"
| "exn_str (BaseException msg) = msg"

datatype ParseMode = MARKDOWN_V2 | MARKDOWN | HTML

text \<open>
  What a method does to the outside, in order: a reply on the update's chat, a message sent
  through the application's bot, a record of \<^verbatim>\<open>logger.error\<close>, a call of the storage
  collaborator, and the two accesses to the log file.
\<close>

datatype event =
    ReplyText string "ParseMode option"
  | SendMessage int string ParseMode bool
  | LoggerError string
  | StorageGetOtpCount
  | PathExists string
  | ReadLines string

text \<open>
  What the methods read from the outside: the clock, the process environment, the file
  system (a path that exists is a readable text file, given by the lines \<^verbatim>\<open>readlines()\<close>
  returns), the outcome of the storage collaborator's \<^verbatim>\<open>get_otp_count()\<close>, the outcome of
  \<^verbatim>\<open>bot.send_message\<close> for each request (\<open>None\<close>: delivered), the library's
  \<^verbatim>\<open>strftime('%Y-%m-%d %H:%M:%S')\<close> and the text of \<^verbatim>\<open>traceback.format_exc()\<close>.
\<close>

record world =
  now :: datetime
  environ :: "string \<Rightarrow> string option"
  files :: "string \<Rightarrow> string list option"
  get_otp_count :: "exn + int"
  send_message :: "int \<Rightarrow> string \<Rightarrow> ParseMode \<Rightarrow> bool \<Rightarrow> exn option"
  strftime :: "datetime \<Rightarrow> string"
  format_exc :: string

datatype Application = Application string

record bot =
  token :: string
  admin_chat_ids :: "int list"
  application :: "Application option"
  start_time :: datetime
  is_monitoring :: bool
  last_login_time :: "datetime option"
  last_fetch_time :: "datetime option"

record Update =
  effective_chat_id :: int

record Context =
  args :: "string list"

text \<open>
  A method returns the bot as it leaves it, the effects in order, and the exception that
  propagates out of it (\<open>None\<close>: it returned).
\<close>

type_synonym outcome = "bot \<times> event list \<times> exn option"

section \<open>The methods\<close>

definition is_admin :: "bot \<Rightarrow> int \<Rightarrow> bool" where
  "is_admin self chat_id = (chat_id \<in> set (admin_chat_ids self))"

definition special_chars :: "string list" where
  "special_chars =
     [''_'', ''*'', ''['', '']'', ''('', '')'', ''~'', [backtick], ''>'', ''#'',
      ''+'', ''-'', ''='', ''|'', ''{'', ''}'', ''.'', ''!'']"

definition escape_markdown :: "string \<Rightarrow> string" where
  "escape_markdown text =
     foldl (\<lambda>text char. str_replace char (backslash # char) text) text special_chars"

definition get_uptime :: "bot \<Rightarrow> world \<Rightarrow> string" where
  "get_uptime self w =
     (let uptime = datetime_sub (now w) (start_time self);
          days = td_days uptime;
          seconds = td_seconds uptime;
          hours = seconds div 3600;
          remainder = seconds mod 3600;
          minutes = remainder div 60
      in if days > 0 then
           str_int days @ ''d '' @ str_int hours @ ''h '' @ str_int minutes @ ''m''
         else if hours > 0 then str_int hours @ ''h '' @ str_int minutes @ ''m''
         else str_int minutes @ ''m'')"

subsection \<open>Broadcast to the admins\<close>

definition send_failed :: "int \<Rightarrow> exn \<Rightarrow> string" where
  "send_failed chat_id e =
     ''Failed to send message to admin '' @ str_int chat_id @ '': '' @ exn_str e"

text \<open>The loop of \<^verbatim>\<open>send_admin_message\<close> over the admin chat ids that remain.\<close>

fun send_each :: "world \<Rightarrow> string \<Rightarrow> ParseMode \<Rightarrow> bool \<Rightarrow> int list \<Rightarrow> event list \<times> exn option" where
  "send_each w message parse_mode disable_notification [] = ([], None)"
| "send_each w message parse_mode disable_notification (chat_id # rest) =
     (case send_message w chat_id message parse_mode disable_notification of
        None \<Rightarrow>
          (let (evs, r) = send_each w message parse_mode disable_notification rest
           in (SendMessage chat_id message parse_mode disable_notification # evs, r))
      | Some (Exception msg) \<Rightarrow>
          (let (evs, r) = send_each w message parse_mode disable_notification rest
           in (SendMessage chat_id message parse_mode disable_notification
                 # LoggerError (send_failed chat_id (Exception msg)) # evs, r))
      | Some (BaseException msg) \<Rightarrow>
          ([SendMessage chat_id message parse_mode disable_notification],
           Some (BaseException msg)))"

definition send_admin_message :: "bot \<Rightarrow> world \<Rightarrow> string \<Rightarrow> ParseMode \<Rightarrow> bool \<Rightarrow> outcome" where
  "send_admin_message self w message parse_mode disable_notification =
     (if application self = None then
        (self, [LoggerError ''Bot application not initialized''], None)
      else
        (let (evs, r) =
               send_each w message parse_mode disable_notification (admin_chat_ids self)
         in (self, evs, r)))"

subsection \<open>The literal texts\<close>

definition cross_mark :: string where
  "cross_mark = [CHR 0xE2, CHR 0x9D, CHR 0x8C]"

definition page_emoji :: string where
  "page_emoji = [CHR 0xF0, CHR 0x9F, CHR 0x93, CHR 0x84]"

definition robot_emoji :: string where
  "robot_emoji = [CHR 0xF0, CHR 0x9F, CHR 0xA4, CHR 0x96]"

definition chart_emoji :: string where
  "chart_emoji = [CHR 0xF0, CHR 0x9F, CHR 0x93, CHR 0x8A]"

definition green_circle :: string where
  "green_circle = [CHR 0xF0, CHR 0x9F, CHR 0x9F, CHR 0xA2]"

definition red_circle :: string where
  "red_circle = [CHR 0xF0, CHR 0x9F, CHR 0x94, CHR 0xB4]"

definition info_emoji :: string where
  "info_emoji = [CHR 0xE2, CHR 0x84, CHR 0xB9, CHR 0xEF, CHR 0xB8, CHR 0x8F]"

definition bullet :: string where
  "bullet = [CHR 0xE2, CHR 0x80, CHR 0xA2]"

definition code_fence :: string where
  "code_fence = [backtick, backtick, backtick]"

definition unauthorized_text :: string where
  "unauthorized_text = cross_mark @ '' Unauthorized access''"

definition invalid_number_text :: string where
  "invalid_number_text = cross_mark @ '' Invalid number format''"

definition log_not_found_text :: string where
  "log_not_found_text = page_emoji @ '' Log file not found''"

definition log_empty_text :: string where
  "log_empty_text = page_emoji @ '' Log file is empty''"

definition hint_text :: string where
  "hint_text = info_emoji @ '' Use /start to see available commands''"

subsection \<open>The command handlers\<close>

definition start_command :: "bot \<Rightarrow> world \<Rightarrow> Update \<Rightarrow> Context \<Rightarrow> outcome" where
  "start_command self w update context =
     (if \<not> is_admin self (effective_chat_id update) then
        (self, [ReplyText unauthorized_text None], None)
      else
        (let status_text =
               robot_emoji @ '' *iVASMS Telegram Bot*\<newline>\<newline>''
               @ ''Status: ''
               @ (if is_monitoring self then green_circle @ '' Running''
                  else red_circle @ '' Stopped'') @ ''\<newline>''
               @ ''Uptime: '' @ get_uptime self w @ ''\<newline>''
               @ ''Admin Chat ID: '' @ [backtick] @ str_int (effective_chat_id update)
               @ [backtick] @ ''\<newline>\<newline>''
               @ ''Available commands:\<newline>''
               @ bullet @ '' '' @ [backtick] @ ''/status'' @ [backtick] @ '' - Bot status\<newline>''
               @ bullet @ '' '' @ [backtick] @ ''/config'' @ [backtick] @ '' - Configuration\<newline>''
               @ bullet @ '' '' @ [backtick] @ ''/recent_otps'' @ [backtick] @ '' - Recent OTPs\<newline>''
               @ bullet @ '' '' @ [backtick] @ ''/last_otp'' @ [backtick] @ '' - Last OTP\<newline>''
               @ bullet @ '' '' @ [backtick] @ ''/new_otp'' @ [backtick] @ '' - Force fetch\<newline>''
               @ bullet @ '' '' @ [backtick] @ ''/logs'' @ [backtick] @ '' - View logs\<newline>''
         in (self, [ReplyText status_text (Some MARKDOWN_V2)], None)))"

text \<open>
  The text \<^verbatim>\<open>status_command\<close> has built when it reaches the storage call (lines 137 to
  151 of the source).
\<close>

definition status_head :: "bot \<Rightarrow> world \<Rightarrow> string" where
  "status_head self w =
     chart_emoji @ '' *Bot Status*\<newline>\<newline>''
     @ ''Monitoring: ''
     @ (if is_monitoring self then green_circle @ '' Active''
        else red_circle @ '' Inactive'') @ ''\<newline>''
     @ ''Uptime: '' @ get_uptime self w @ ''\<newline>''
     @ (case last_login_time self of
          Some t \<Rightarrow> ''Last Login: '' @ strftime w t @ ''\<newline>''
        | None \<Rightarrow> ''Last Login: Never\<newline>'')
     @ (case last_fetch_time self of
          Some t \<Rightarrow> ''Last Fetch: '' @ strftime w t @ ''\<newline>''
        | None \<Rightarrow> ''Last Fetch: Never\<newline>'')"

definition status_command :: "bot \<Rightarrow> world \<Rightarrow> Update \<Rightarrow> Context \<Rightarrow> outcome" where
  "status_command self w update context =
     (if \<not> is_admin self (effective_chat_id update) then
        (self, [ReplyText unauthorized_text None], None)
      else
        (let status_text = status_head self w
         in case get_otp_count w of
              Inl e \<Rightarrow> (self, [StorageGetOtpCount], Some e)
            | Inr otp_count \<Rightarrow>
                (let status_text = status_text @ ''Total OTPs: '' @ str_int otp_count @ ''\<newline>''
                 in (self, [StorageGetOtpCount, ReplyText status_text (Some MARKDOWN_V2)],
                     None))))"

text \<open>
  \<^verbatim>\<open>logs_command\<close> after the argument is read (lines 171 to 186 of the source): the
  last \<open>lines\<close> lines of the log file are replied.
\<close>

definition os_getenv :: "world \<Rightarrow> string \<Rightarrow> string \<Rightarrow> string" where
  "os_getenv w key dflt = (case environ w key of Some v \<Rightarrow> v | None \<Rightarrow> dflt)"

definition logs_tail :: "bot \<Rightarrow> world \<Rightarrow> int \<Rightarrow> outcome" where
  "logs_tail self w lines =
     (let log_file = os_getenv w ''LOG_FILE'' ''./logs/bot.log''
      in case files w log_file of
           None \<Rightarrow> (self, [PathExists log_file, ReplyText log_not_found_text None], None)
         | Some all_lines \<Rightarrow>
             (let log_lines = py_slice_from (- lines) all_lines
              in if log_lines = [] then
                   (self, [PathExists log_file, ReadLines log_file,
                           ReplyText log_empty_text None], None)
                 else
                   (let log_text = concat log_lines;
                        response_text =
                          page_emoji @ '' *Last '' @ str_nat (length log_lines)
                          @ '' log lines*\<newline>\<newline>'' @ code_fence @ ''\<newline>''
                          @ log_text @ ''\<newline>'' @ code_fence
                    in (self, [PathExists log_file, ReadLines log_file,
                               ReplyText response_text (Some MARKDOWN_V2)], None))))"

definition logs_command :: "bot \<Rightarrow> world \<Rightarrow> Update \<Rightarrow> Context \<Rightarrow> outcome" where
  "logs_command self w update context =
     (if \<not> is_admin self (effective_chat_id update) then
        (self, [ReplyText unauthorized_text None], None)
      else if args context \<noteq> [] then
        (case py_int (hd (args context)) of
           None \<Rightarrow> (self, [ReplyText invalid_number_text None], None)
         | Some v \<Rightarrow> logs_tail self w (max 1 (min v 100)))
      else logs_tail self w 20)"

definition handle_message :: "bot \<Rightarrow> world \<Rightarrow> Update \<Rightarrow> Context \<Rightarrow> outcome" where
  "handle_message self w update context =
     (if \<not> is_admin self (effective_chat_id update) then (self, [], None)
      else (self, [ReplyText hint_text (Some MARKDOWN_V2)], None))"

subsection \<open>Error and status notifications\<close>

text \<open>The trace as \<^verbatim>\<open>send_error_message\<close> puts it into the report (lines 210 to 212).\<close>

definition bounded_trace :: "string \<Rightarrow> string" where
  "bounded_trace stack_trace =
     (if length stack_trace > 500 then take 500 stack_trace @ ''...'' else stack_trace)"

definition error_report :: "exn \<Rightarrow> string \<Rightarrow> string" where
  "error_report error stack_trace =
     (let error_msg =
            cross_mark @ '' *Error*\<newline>\<newline>'' @ [backtick]
            @ escape_markdown (exn_str error) @ [backtick]
      in error_msg @ ''\<newline>\<newline>'' @ code_fence @ ''\<newline>''
         @ bounded_trace stack_trace @ ''\<newline>'' @ code_fence)"

definition send_error_message :: "bot \<Rightarrow> world \<Rightarrow> exn \<Rightarrow> string \<Rightarrow> outcome" where
  "send_error_message self w error context =
     (let error_msg = error_report error (format_exc w)
      in case send_admin_message self w error_msg MARKDOWN_V2 False of
           (self', evs, Some (Exception msg)) \<Rightarrow>
             (self', evs @ [LoggerError (''Failed to send error message: '' @ msg)], None)
         | (self', evs, r) \<Rightarrow> (self', evs, r))"

definition send_status_message :: "bot \<Rightarrow> world \<Rightarrow> string \<Rightarrow> bool \<Rightarrow> outcome" where
  "send_status_message self w message is_error =
     (let emoji = (if is_error then cross_mark else info_emoji);
          formatted_message = emoji @ '' '' @ escape_markdown message
      in send_admin_message self w formatted_message MARKDOWN_V2 False)"

section \<open>The words of the specification\<close>

text \<open>
  The reserved set of the MarkdownSanitizer, and its escape operation as the specification
  words it: every reserved character is prefixed with the escape character, every other
  character is passed through.
\<close>

definition reserved_chars :: string where
  "reserved_chars = ''_*[]()~'' @ [backtick] @ ''>#+-=|{}.!''"

definition escape_spec :: "string \<Rightarrow> string" where
  "escape_spec text =
     concat (map (\<lambda>c. if c \<in> set reserved_chars then [backslash, c] else [c]) text)"

definition count_non_reserved :: "string \<Rightarrow> nat" where
  "count_non_reserved text = length (filter (\<lambda>c. c \<notin> set reserved_chars) text)"

definition count_reserved :: "string \<Rightarrow> nat" where
  "count_reserved text = length (filter (\<lambda>c. c \<in> set reserved_chars) text)"

definition count_plain :: "string \<Rightarrow> nat" where
  "count_plain text =
     length (filter (\<lambda>c. c \<notin> set reserved_chars \<and> c \<noteq> backslash) text)"

text \<open>
  The elapsed duration of the UptimeClock in whole seconds: the clock reading minus the
  start time, the fraction of a second dropped.
\<close>

definition elapsed_seconds :: "bot \<Rightarrow> world \<Rightarrow> int" where
  "elapsed_seconds self w = (now w - start_time self) div 1000000"

text \<open>
  The formatting policy of the UptimeClock as the specification words it, for days \<open>d\<close>,
  hours \<open>h\<close> and minutes \<open>m\<close>: the hours lead only when the days are zero.
\<close>

definition uptime_spec :: "int \<Rightarrow> int \<Rightarrow> int \<Rightarrow> string" where
  "uptime_spec d h m =
     (if d > 0 then str_int d @ ''d '' @ str_int h @ ''h '' @ str_int m @ ''m''
      else if d = 0 \<and> h > 0 then str_int h @ ''h '' @ str_int m @ ''m''
      else str_int m @ ''m'')"

text \<open>
  What the NotificationBroadcaster owes one recipient: the delivery attempt, and a log record
  when the attempt fails.
\<close>

definition attempt_events :: "world \<Rightarrow> string \<Rightarrow> ParseMode \<Rightarrow> bool \<Rightarrow> int \<Rightarrow> event list" where
  "attempt_events w message parse_mode disable_notification chat_id =
     SendMessage chat_id message parse_mode disable_notification
     # (case send_message w chat_id message parse_mode disable_notification of
          None \<Rightarrow> []
        | Some e \<Rightarrow> [LoggerError (send_failed chat_id e)])"

fun is_send :: "event \<Rightarrow> bool" where
  "is_send (SendMessage chat_id message parse_mode disable_notification) = True"
| "is_send ev = False"

section \<open>Sample values\<close>

text \<open>A bot with three admins and an initialised application, and surroundings for it.\<close>

definition bot0 :: bot where
  "bot0 = \<lparr>token = ''t'', admin_chat_ids = [1, 2, 3], application = Some (Application ''t''),
      start_time = 5000000, is_monitoring = False, last_login_time = None,
      last_fetch_time = None\<rparr>"

definition world0 :: world where
  "world0 = \<lparr>now = 5000000, environ = (\<lambda>k. None), files = (\<lambda>p. None),
      get_otp_count = Inr 7,
      send_message = (\<lambda>chat_id message parse_mode dn. None),
      strftime = (\<lambda>t. ''2024-01-01 00:00:00''), format_exc = ''NoneType: None\<newline>''\<rparr>"

text \<open>Surroundings in which the delivery to chat 2 fails.\<close>

definition world_flaky :: world where
  "world_flaky = world0\<lparr>send_message :=
      (\<lambda>chat_id message parse_mode dn.
         if chat_id = 2 then Some (Exception ''Forbidden'') else None)\<rparr>"

text \<open>
  Surroundings in which the storage collaborator is unavailable, in which the log file has
  five lines, and in which it has none; an update from the admin chat 1 and one from a chat
  that is not an admin's.
\<close>

definition world_storage_down :: world where
  "world_storage_down = world0\<lparr>get_otp_count := Inl (Exception ''storage unavailable'')\<rparr>"

definition world_logs :: world where
  "world_logs = world0\<lparr>files :=
      (\<lambda>p. if p = ''./logs/bot.log''
           then Some [''a\<newline>'', ''b\<newline>'', ''c\<newline>'', ''d\<newline>'', ''e\<newline>'']
           else None)\<rparr>"

definition world_empty_log :: world where
  "world_empty_log = world0\<lparr>files :=
      (\<lambda>p. if p = ''./logs/bot.log'' then Some [] else None)\<rparr>"

definition admin_update :: Update where
  "admin_update = \<lparr>effective_chat_id = 1\<rparr>"

definition stranger_update :: Update where
  "stranger_update = \<lparr>effective_chat_id = 99\<rparr>"

section \<open>MarkdownSanitizer\<close>

definition esc_set :: "char set \<Rightarrow> string \<Rightarrow> string" where
  "esc_set S text = concat (map (\<lambda>x. if x \<in> S then [backslash, x] else [x]) text)"

lemma str_replace_Nil: "old \<noteq> [] \<Longrightarrow> str_replace old new [] = []"
  by (simp add: str_replace.simps)

lemma str_replace_single_Cons:
  "str_replace [c] new (x # xs) =
     (if x = c then new @ str_replace [c] new xs else x # str_replace [c] new xs)"
  by (subst str_replace.simps) simp

lemma str_replace_single:
  "str_replace [c] new s = concat (map (\<lambda>x. if x = c then new else [x]) s)"
  by (induction s) (simp_all add: str_replace_Nil str_replace_single_Cons)

lemma esc_set_empty: "esc_set {} s = s"
  by (induction s) (simp_all add: esc_set_def)

lemma esc_set_step:
  assumes "c \<notin> S" and "c \<noteq> backslash"
  shows "str_replace [c] (backslash # [c]) (esc_set S s) = esc_set (insert c S) s"
  using assms
  by (induction s) (auto simp add: str_replace_single esc_set_def)

lemma foldl_replace:
  assumes "distinct cs" and "set cs \<inter> S = {}" and "backslash \<notin> set cs"
  shows "foldl (\<lambda>text char. str_replace char (backslash # char) text) (esc_set S s)
           (map (\<lambda>c. [c]) cs) = esc_set (S \<union> set cs) s"
  using assms
proof (induction cs arbitrary: S)
  case Nil
  then show ?case by simp
next
  case (Cons c cs)
  have "c \<notin> S" and "c \<noteq> backslash" using Cons.prems by auto
  then have step: "str_replace [c] (backslash # [c]) (esc_set S s) = esc_set (insert c S) s"
    by (rule esc_set_step)
  have "set cs \<inter> insert c S = {}" using Cons.prems by auto
  with Cons.prems have "foldl (\<lambda>text char. str_replace char (backslash # char) text)
      (esc_set (insert c S) s) (map (\<lambda>c. [c]) cs) = esc_set (insert c S \<union> set cs) s"
    by (intro Cons.IH) auto
  with step show ?case by simp
qed

lemma special_chars_reserved: "special_chars = map (\<lambda>c. [c]) reserved_chars"
  by (simp add: special_chars_def reserved_chars_def)

lemma backslash_not_reserved: "backslash \<notin> set reserved_chars"
  by (simp add: reserved_chars_def backslash_def backtick_def)

lemma escape_markdown_one_pass: "escape_markdown s = escape_spec s"
proof -
  have d: "distinct reserved_chars" by (simp add: reserved_chars_def backtick_def)
  have "escape_markdown s = foldl (\<lambda>text char. str_replace char (backslash # char) text)
      (esc_set {} s) (map (\<lambda>c. [c]) reserved_chars)"
    by (simp add: escape_markdown_def special_chars_reserved esc_set_empty)
  also have "\<dots> = esc_set ({} \<union> set reserved_chars) s"
    using d backslash_not_reserved by (intro foldl_replace) auto
  finally show ?thesis by (simp add: esc_set_def escape_spec_def)
qed

lemma count_non_reserved_escape_spec:
  "count_non_reserved (escape_spec s) = count_non_reserved s + count_reserved s"
  using backslash_not_reserved
  by (induction s) (simp_all add: escape_spec_def count_non_reserved_def count_reserved_def)

lemma count_plain_escape_spec: "count_plain (escape_spec s) = count_plain s"
  by (induction s) (simp_all add: escape_spec_def count_plain_def)

text \<open>
  Claim C4, as the code has it. The escape character is not in the reserved set, so each
  reserved character of the input adds one non-reserved character to the output: the text
  \<open>_\<close> has none and its escaped form has one. What is unchanged for every input text is
  the count of the characters that are neither reserved nor the escape character; the count
  of the non-reserved characters grows by the number of reserved characters of the input.
\<close>

theorem escape_markdown_counts:
  "count_plain (escape_markdown s) = count_plain s
   \<and> count_non_reserved (escape_markdown s) = count_non_reserved s + count_reserved s"
  by (simp add: escape_markdown_one_pass count_plain_escape_spec count_non_reserved_escape_spec)

theorem escape_markdown_counts_witness:
  "count_plain (escape_markdown ''a_b.c'') = 3
   \<and> count_non_reserved (escape_markdown ''a_b.c'') = 5"
  using escape_markdown_counts [of "''a_b.c''"]
  by (simp add: count_plain_def count_non_reserved_def count_reserved_def reserved_chars_def
      backslash_def backtick_def)

text \<open>
  Claim C4 as stated fails at the text \<open>_\<close>: the count of non-reserved characters is 0
  before the escape operation and 1 after it.
\<close>

theorem count_non_reserved_counterexample:
  "count_non_reserved (escape_markdown ''_'') \<noteq> count_non_reserved ''_''"
  by (simp add: escape_markdown_one_pass escape_spec_def count_non_reserved_def
      reserved_chars_def backslash_def backtick_def)

lemma escaped_Cons_plain:
  assumes "x \<notin> set reserved_chars"
    and "\<forall>i<length ys. ys ! i \<in> set reserved_chars \<longrightarrow> 0 < i \<and> ys ! (i - 1) = backslash"
  shows "\<forall>i<length (x # ys). (x # ys) ! i \<in> set reserved_chars
           \<longrightarrow> 0 < i \<and> (x # ys) ! (i - 1) = backslash"
proof (intro allI impI)
  fix i assume i: "i < length (x # ys)" and r: "(x # ys) ! i \<in> set reserved_chars"
  show "0 < i \<and> (x # ys) ! (i - 1) = backslash"
  proof (cases i)
    case 0
    with r assms(1) show ?thesis by simp
  next
    case (Suc j)
    with i r have "j < length ys" "ys ! j \<in> set reserved_chars" by simp_all
    with assms(2) have "0 < j" "ys ! (j - 1) = backslash" by auto
    with Suc show ?thesis by (cases j) simp_all
  qed
qed

lemma escaped_Cons_reserved:
  assumes "\<forall>i<length ys. ys ! i \<in> set reserved_chars \<longrightarrow> 0 < i \<and> ys ! (i - 1) = backslash"
  shows "\<forall>i<length (backslash # c # ys). (backslash # c # ys) ! i \<in> set reserved_chars
           \<longrightarrow> 0 < i \<and> (backslash # c # ys) ! (i - 1) = backslash"
proof (intro allI impI)
  fix i assume i: "i < length (backslash # c # ys)"
    and r: "(backslash # c # ys) ! i \<in> set reserved_chars"
  show "0 < i \<and> (backslash # c # ys) ! (i - 1) = backslash"
  proof (cases i)
    case 0
    with r backslash_not_reserved show ?thesis by simp
  next
    case (Suc j)
    show ?thesis
    proof (cases j)
      case 0
      with Suc show ?thesis by simp
    next
      case (Suc k)
      with \<open>i = Suc j\<close> i r have "k < length ys" "ys ! k \<in> set reserved_chars" by simp_all
      with assms have "0 < k" "ys ! (k - 1) = backslash" by auto
      with Suc \<open>i = Suc j\<close> show ?thesis by (cases k) simp_all
    qed
  qed
qed

lemma escape_spec_escaped:
  "\<forall>i<length (escape_spec s). escape_spec s ! i \<in> set reserved_chars
     \<longrightarrow> 0 < i \<and> escape_spec s ! (i - 1) = backslash"
proof (induction s)
  case Nil
  show ?case by (simp add: escape_spec_def)
next
  case (Cons c s)
  show ?case
  proof (cases "c \<in> set reserved_chars")
    case True
    have "escape_spec (c # s) = backslash # c # escape_spec s"
      using True by (simp add: escape_spec_def)
    with escaped_Cons_reserved [OF Cons.IH, of c] show ?thesis by simp
  next
    case False
    have "escape_spec (c # s) = c # escape_spec s"
      using False by (simp add: escape_spec_def)
    with escaped_Cons_plain [OF False Cons.IH] show ?thesis by simp
  qed
qed

lemma escape_spec_append: "escape_spec (a @ b) = escape_spec a @ escape_spec b"
  by (simp add: escape_spec_def)

text \<open>
  Claim C7. For every input text the escape operation is the one-pass escaping of the
  specification (each reserved character prefixed with the escape character, every other
  character passed through unchanged); every reserved character of the output stands right
  after an escape character; the empty text is mapped to the empty text; and a newline is
  not special: the lines of a text are escaped as they are on their own.
\<close>

theorem escape_markdown_contract:
  "escape_markdown s = escape_spec s
   \<and> (\<forall>i<length (escape_markdown s). escape_markdown s ! i \<in> set reserved_chars
        \<longrightarrow> 0 < i \<and> escape_markdown s ! (i - 1) = backslash)
   \<and> escape_markdown [] = []
   \<and> escape_markdown (a @ ''\<newline>'' @ b) = escape_markdown a @ ''\<newline>'' @ escape_markdown b"
proof -
  have nl: "escape_spec ''\<newline>'' = ''\<newline>''"
    by (simp add: escape_spec_def reserved_chars_def backtick_def)
  have c1: "escape_markdown s = escape_spec s"
    by (rule escape_markdown_one_pass)
  have c2: "\<forall>i<length (escape_markdown s). escape_markdown s ! i \<in> set reserved_chars
        \<longrightarrow> 0 < i \<and> escape_markdown s ! (i - 1) = backslash"
    unfolding escape_markdown_one_pass by (rule escape_spec_escaped)
  have c3: "escape_markdown [] = []"
    by (simp add: escape_markdown_one_pass escape_spec_def)
  have c4: "escape_markdown (a @ ''\<newline>'' @ b)
      = escape_markdown a @ ''\<newline>'' @ escape_markdown b"
    by (simp only: escape_markdown_one_pass escape_spec_append nl)
  from c1 c2 c3 c4 show ?thesis by blast
qed

theorem escape_markdown_contract_witness:
  "escape_markdown ''a_b'' = [CHR ''a'', backslash, CHR ''_'', CHR ''b'']
   \<and> escape_markdown ''a_b'' ! 2 \<in> set reserved_chars
   \<and> escape_markdown ''a_b'' ! (2 - 1) = backslash
   \<and> escape_markdown (''x.'' @ ''\<newline>'' @ ''y!'')
       = [CHR ''x'', backslash, CHR ''.'', CHR ''\<newline>'', CHR ''y'', backslash, CHR ''!'']"
  using escape_markdown_contract [of "''a_b''" "''x.''" "''y!''"]
    escape_markdown_contract [of "''x.''"] escape_markdown_contract [of "''y!''"]
  by (simp add: escape_spec_def reserved_chars_def backtick_def)

section \<open>UptimeClock\<close>

lemma seconds_decompose: 
  fixes e :: int
  shows "e = 86400 * (e div 86400) + 3600 * (e mod 86400 div 3600) + 60 * (e mod 3600 div 60) + e mod 60"
proof -
  have a: "e = 86400 * (e div 86400) + e mod 86400" by (simp only: mult_div_mod_eq)
  have b: "e mod 86400 = 3600 * (e mod 86400 div 3600) + e mod 86400 mod 3600"
    by (simp only: mult_div_mod_eq)
  have c: "e mod 86400 mod 3600 = e mod 3600" by (rule mod_mod_cancel) simp
  have d: "e mod 3600 = 60 * (e mod 3600 div 60) + e mod 3600 mod 60"
    by (simp only: mult_div_mod_eq)
  have f: "e mod 3600 mod 60 = e mod 60" by (rule mod_mod_cancel) simp
  define q1 where "q1 = e div 86400"
  define r1 where "r1 = e mod 86400"
  define q2 where "q2 = r1 div 3600"
  define r2 where "r2 = e mod 3600"
  define q3 where "q3 = r2 div 60"
  define r3 where "r3 = e mod 60"
  have "e = 86400 * q1 + r1" "r1 = 3600 * q2 + r2" "r2 = 60 * q3 + r3"
    using a b c d f unfolding q1_def r1_def q2_def r2_def q3_def r3_def by (simp_all only:)
  then have "e = 86400 * q1 + 3600 * q2 + 60 * q3 + r3" by linarith
  then show ?thesis unfolding q1_def r1_def q2_def r2_def q3_def r3_def .
qed

lemma seconds_bounds:
  fixes e :: int
  shows "0 \<le> e mod 86400 div 3600" "e mod 86400 div 3600 \<le> 23"
    "0 \<le> e mod 3600 div 60" "e mod 3600 div 60 \<le> 59" "0 \<le> e mod 60" "e mod 60 \<le> 59"
proof -
  have r1: "0 \<le> e mod 86400" "e mod 86400 \<le> 86399"
    using pos_mod_bound [of 86400 e] by simp_all
  have r2: "0 \<le> e mod 3600" "e mod 3600 \<le> 3599"
    using pos_mod_bound [of 3600 e] by simp_all
  show "0 \<le> e mod 86400 div 3600" using r1(1) by (simp only: pos_imp_zdiv_nonneg_iff)
  have "e mod 86400 div 3600 \<le> 86399 div 3600" using r1(2) by (rule zdiv_mono1) simp
  then show "e mod 86400 div 3600 \<le> 23" by simp
  show "0 \<le> e mod 3600 div 60" using r2(1) by (simp only: pos_imp_zdiv_nonneg_iff)
  have "e mod 3600 div 60 \<le> 3599 div 60" using r2(2) by (rule zdiv_mono1) simp
  then show "e mod 3600 div 60 \<le> 59" by simp
  show "0 \<le> e mod 60" by simp
  show "e mod 60 \<le> 59" using pos_mod_bound [of 60 e] by simp
qed

lemma micro_seconds:
  fixes u :: int
  shows "u mod 86400000000 div 1000000 = u div 1000000 mod 86400"
proof -
  have m: "(86400000000::int) = 1000000 * 86400" by simp
  have "u mod (1000000 * 86400) = 1000000 * (u div 1000000 mod 86400) + u mod 1000000"
    by (rule zmod_zmult2_eq) simp
  then have "u mod 86400000000 = 1000000 * (u div 1000000 mod 86400) + u mod 1000000"
    by (subst m)
  then have "u mod 86400000000 div 1000000
      = (u mod 1000000 + (u div 1000000 mod 86400) * 1000000) div 1000000"
    by (simp only: mult.commute [of 1000000] add.commute [of _ "u mod 1000000"])
  also have "\<dots> = u div 1000000 mod 86400 + u mod 1000000 div 1000000"
    by (subst div_mult_self1) simp_all
  also have "u mod 1000000 div 1000000 = 0"
    by (rule div_pos_pos_trivial) simp_all
  finally show ?thesis by simp
qed

lemma micro_days:
  fixes u :: int
  shows "u div 86400000000 = u div 1000000 div 86400"
proof -
  have m: "(86400000000::int) = 1000000 * 86400" by simp
  have "u div (1000000 * 86400) = u div 1000000 div 86400"
    by (rule zdiv_zmult2_eq) simp
  then show ?thesis by (subst m)
qed


lemma td_days_sub: "td_days (datetime_sub a b) = (a - b) div 1000000 div 86400"
  by (simp only: datetime_sub_def Let_def timedelta.select_convs micro_days)

lemma td_seconds_sub: "td_seconds (datetime_sub a b) = (a - b) div 1000000 mod 86400"
  by (simp only: datetime_sub_def Let_def timedelta.select_convs micro_seconds)

lemma str_int_small:
  "str_int 0 = ''0''" "str_int 1 = ''1''" "str_int 59 = ''59''"
  by (simp_all add: str_int_def str_nat.simps digit_char_def)

lemma get_uptime_parts:
  "get_uptime self w =
     (if 0 < elapsed_seconds self w div 86400 then
        str_int (elapsed_seconds self w div 86400) @ ''d ''
        @ str_int (elapsed_seconds self w mod 86400 div 3600) @ ''h ''
        @ str_int (elapsed_seconds self w mod 3600 div 60) @ ''m''
      else if 0 < elapsed_seconds self w mod 86400 div 3600 then
        str_int (elapsed_seconds self w mod 86400 div 3600) @ ''h ''
        @ str_int (elapsed_seconds self w mod 3600 div 60) @ ''m''
      else str_int (elapsed_seconds self w mod 3600 div 60) @ ''m'')"
proof -
  have mm: "(now w - start_time self) div 1000000 mod 86400 mod 3600
      = (now w - start_time self) div 1000000 mod 3600"
    by (rule mod_mod_cancel) simp
  show ?thesis
    unfolding get_uptime_def Let_def td_days_sub td_seconds_sub mm elapsed_seconds_def
    by (rule refl)
qed

lemma get_uptime_at:
  "elapsed_seconds self w = 0 \<Longrightarrow> get_uptime self w = ''0m''"
  "elapsed_seconds self w = 59 \<Longrightarrow> get_uptime self w = ''0m''"
  "elapsed_seconds self w = 60 \<Longrightarrow> get_uptime self w = ''1m''"
  "elapsed_seconds self w = 3599 \<Longrightarrow> get_uptime self w = ''59m''"
  "elapsed_seconds self w = 3600 \<Longrightarrow> get_uptime self w = ''1h 0m''"
  "elapsed_seconds self w = 90000 \<Longrightarrow> get_uptime self w = ''1d 1h 0m''"
  by (simp_all add: get_uptime_parts str_int_small)

lemma get_uptime_nonneg:
  assumes "0 \<le> elapsed_seconds self w"
  shows "0 \<le> elapsed_seconds self w div 86400"
    and "get_uptime self w =
      uptime_spec (elapsed_seconds self w div 86400) (elapsed_seconds self w mod 86400 div 3600)
        (elapsed_seconds self w mod 3600 div 60)"
proof -
  show d0: "0 \<le> elapsed_seconds self w div 86400"
    using assms by (simp only: pos_imp_zdiv_nonneg_iff)
  define d where "d = elapsed_seconds self w div 86400"
  define h where "h = elapsed_seconds self w mod 86400 div 3600"
  define m where "m = elapsed_seconds self w mod 3600 div 60"
  have g: "get_uptime self w =
     (if 0 < d then str_int d @ ''d '' @ str_int h @ ''h '' @ str_int m @ ''m''
      else if 0 < h then str_int h @ ''h '' @ str_int m @ ''m''
      else str_int m @ ''m'')"
    unfolding d_def h_def m_def by (rule get_uptime_parts)
  from d0 have "0 \<le> d" by (simp only: d_def)
  then have "uptime_spec d h m =
     (if 0 < d then str_int d @ ''d '' @ str_int h @ ''h '' @ str_int m @ ''m''
      else if 0 < h then str_int h @ ''h '' @ str_int m @ ''m''
      else str_int m @ ''m'')"
    by (auto simp add: uptime_spec_def)
  with g have "get_uptime self w = uptime_spec d h m" by (simp only:)
  then show "get_uptime self w =
      uptime_spec (elapsed_seconds self w div 86400) (elapsed_seconds self w mod 86400 div 3600)
        (elapsed_seconds self w mod 3600 div 60)"
    unfolding d_def h_def m_def .
qed

text \<open>
  Claim C5, as the code has it. With \<open>e\<close> the elapsed whole seconds, \<^verbatim>\<open>_get_uptime\<close> splits
  \<open>e\<close> into days \<open>d\<close> (rounded down, so negative when the clock reads before the start time),
  hours \<open>h\<close> in \<open>0..23\<close> and minutes \<open>m\<close> in \<open>0..59\<close>; the seconds that remain (\<open>0..59\<close>) are
  dropped. The text is \<open>{d}d {h}h {m}m\<close> when \<open>d > 0\<close>, \<open>{h}h {m}m\<close> when \<open>d \<le> 0\<close> and \<open>h > 0\<close>,
  and \<open>{m}m\<close> otherwise. For an elapsed time that is not negative, \<open>d \<ge> 0\<close> and the text is the
  one of the specification's policy, where the hours lead when \<open>d = 0\<close> and \<open>h > 0\<close>. Elapsed
  times of 0, 59, 60, 3599, 3600 and 90000 seconds give \<open>0m\<close>, \<open>0m\<close>, \<open>1m\<close>, \<open>59m\<close>, \<open>1h 0m\<close>
  and \<open>1d 1h 0m\<close>.
\<close>

theorem get_uptime_format:
  "(let e = elapsed_seconds self w; d = e div 86400; h = e mod 86400 div 3600;
        m = e mod 3600 div 60
    in e = 86400 * d + 3600 * h + 60 * m + e mod 60
       \<and> 0 \<le> h \<and> h \<le> 23 \<and> 0 \<le> m \<and> m \<le> 59 \<and> 0 \<le> e mod 60 \<and> e mod 60 \<le> 59
       \<and> get_uptime self w =
          (if d > 0 then str_int d @ ''d '' @ str_int h @ ''h '' @ str_int m @ ''m''
           else if h > 0 then str_int h @ ''h '' @ str_int m @ ''m''
           else str_int m @ ''m''))
   \<and> (0 \<le> elapsed_seconds self w \<longrightarrow>
        0 \<le> elapsed_seconds self w div 86400
        \<and> get_uptime self w =
            uptime_spec (elapsed_seconds self w div 86400)
              (elapsed_seconds self w mod 86400 div 3600)
              (elapsed_seconds self w mod 3600 div 60))
   \<and> (elapsed_seconds self w = 0 \<longrightarrow> get_uptime self w = ''0m'')
   \<and> (elapsed_seconds self w = 59 \<longrightarrow> get_uptime self w = ''0m'')
   \<and> (elapsed_seconds self w = 60 \<longrightarrow> get_uptime self w = ''1m'')
   \<and> (elapsed_seconds self w = 3599 \<longrightarrow> get_uptime self w = ''59m'')
   \<and> (elapsed_seconds self w = 3600 \<longrightarrow> get_uptime self w = ''1h 0m'')
   \<and> (elapsed_seconds self w = 90000 \<longrightarrow> get_uptime self w = ''1d 1h 0m'')"
  unfolding Let_def
proof (intro conjI impI)
  show "elapsed_seconds self w =
      86400 * (elapsed_seconds self w div 86400)
      + 3600 * (elapsed_seconds self w mod 86400 div 3600)
      + 60 * (elapsed_seconds self w mod 3600 div 60) + elapsed_seconds self w mod 60"
    by (rule seconds_decompose)
  show "get_uptime self w =
     (if 0 < elapsed_seconds self w div 86400 then
        str_int (elapsed_seconds self w div 86400) @ ''d ''
        @ str_int (elapsed_seconds self w mod 86400 div 3600) @ ''h ''
        @ str_int (elapsed_seconds self w mod 3600 div 60) @ ''m''
      else if 0 < elapsed_seconds self w mod 86400 div 3600 then
        str_int (elapsed_seconds self w mod 86400 div 3600) @ ''h ''
        @ str_int (elapsed_seconds self w mod 3600 div 60) @ ''m''
      else str_int (elapsed_seconds self w mod 3600 div 60) @ ''m'')"
    by (rule get_uptime_parts)
qed (rule seconds_bounds get_uptime_at get_uptime_nonneg, assumption?)+

theorem get_uptime_format_witness:
  "get_uptime bot0 (world0\<lparr>now := 5000000\<rparr>) = ''0m''
   \<and> get_uptime bot0 (world0\<lparr>now := 64999999\<rparr>) = ''0m''
   \<and> get_uptime bot0 (world0\<lparr>now := 65000000\<rparr>) = ''1m''
   \<and> get_uptime bot0 (world0\<lparr>now := 3604000000\<rparr>) = ''59m''
   \<and> get_uptime bot0 (world0\<lparr>now := 3605000000\<rparr>) = ''1h 0m''
   \<and> get_uptime bot0 (world0\<lparr>now := 90005000000\<rparr>) = ''1d 1h 0m''
   \<and> get_uptime bot0 (world0\<lparr>now := 3605000000\<rparr>) = uptime_spec 0 1 0"
proof -
  have e: "elapsed_seconds bot0 (world0\<lparr>now := 5000000\<rparr>) = 0"
    "elapsed_seconds bot0 (world0\<lparr>now := 64999999\<rparr>) = 59"
    "elapsed_seconds bot0 (world0\<lparr>now := 65000000\<rparr>) = 60"
    "elapsed_seconds bot0 (world0\<lparr>now := 3604000000\<rparr>) = 3599"
    "elapsed_seconds bot0 (world0\<lparr>now := 3605000000\<rparr>) = 3600"
    "elapsed_seconds bot0 (world0\<lparr>now := 90005000000\<rparr>) = 90000"
    by (simp_all add: elapsed_seconds_def bot0_def world0_def)
  note t = get_uptime_format [unfolded Let_def, THEN conjunct2, THEN conjunct2]
  have "get_uptime bot0 (world0\<lparr>now := 5000000\<rparr>) = ''0m''"
    using t [THEN conjunct1] e(1) by (rule mp)
  moreover have "get_uptime bot0 (world0\<lparr>now := 64999999\<rparr>) = ''0m''"
    using t [THEN conjunct2, THEN conjunct1] e(2) by (rule mp)
  moreover have "get_uptime bot0 (world0\<lparr>now := 65000000\<rparr>) = ''1m''"
    using t [THEN conjunct2, THEN conjunct2, THEN conjunct1] e(3) by (rule mp)
  moreover have "get_uptime bot0 (world0\<lparr>now := 3604000000\<rparr>) = ''59m''"
    using t [THEN conjunct2, THEN conjunct2, THEN conjunct2, THEN conjunct1] e(4)
    by (rule mp)
  moreover have "get_uptime bot0 (world0\<lparr>now := 3605000000\<rparr>) = ''1h 0m''"
    using t [THEN conjunct2, THEN conjunct2, THEN conjunct2, THEN conjunct2, THEN conjunct1]
      e(5)
    by (rule mp)
  moreover have "get_uptime bot0 (world0\<lparr>now := 90005000000\<rparr>) = ''1d 1h 0m''"
    using t [THEN conjunct2, THEN conjunct2, THEN conjunct2, THEN conjunct2, THEN conjunct2]
      e(6)
    by (rule mp)
  moreover have "get_uptime bot0 (world0\<lparr>now := 3605000000\<rparr>) = uptime_spec 0 1 0"
    using get_uptime_format [of bot0 "world0\<lparr>now := 3605000000\<rparr>", unfolded Let_def,
        THEN conjunct2, THEN conjunct1]
    by (simp add: e)
  ultimately show ?thesis by (intro conjI)
qed

text \<open>
  Claim C5 as stated fails when the clock reads before the start time, as the local clock
  does after it is set back: one microsecond before the start the days are \<open>-1\<close>, the hours
  23 and the minutes 59. The days are not zero, so the stated policy gives \<open>59m\<close>, and
  \<^verbatim>\<open>_get_uptime\<close> gives \<open>23h 59m\<close>.
\<close>

theorem get_uptime_negative_counterexample:
  "td_days (datetime_sub (now (world0\<lparr>now := 4999999\<rparr>)) (start_time bot0)) = - 1
   \<and> td_seconds (datetime_sub (now (world0\<lparr>now := 4999999\<rparr>)) (start_time bot0)) div 3600 = 23
   \<and> td_seconds (datetime_sub (now (world0\<lparr>now := 4999999\<rparr>)) (start_time bot0)) mod 3600
        div 60 = 59
   \<and> get_uptime bot0 (world0\<lparr>now := 4999999\<rparr>) = ''23h 59m''
   \<and> uptime_spec (- 1) 23 59 = ''59m''
   \<and> get_uptime bot0 (world0\<lparr>now := 4999999\<rparr>) \<noteq> uptime_spec (- 1) 23 59"
proof -
  have e: "elapsed_seconds bot0 (world0\<lparr>now := 4999999\<rparr>) = - 1"
    by (simp add: elapsed_seconds_def bot0_def world0_def)
  have s: "str_int 23 = ''23''" "str_int 59 = ''59''"
    by (simp_all add: str_int_def str_nat.simps digit_char_def)
  have d: "td_days (datetime_sub (now (world0\<lparr>now := 4999999\<rparr>)) (start_time bot0)) = - 1"
    by (simp add: td_days_sub bot0_def world0_def)
  have t: "td_seconds (datetime_sub (now (world0\<lparr>now := 4999999\<rparr>)) (start_time bot0)) = 86399"
    by (simp add: td_seconds_sub bot0_def world0_def)
  have g: "get_uptime bot0 (world0\<lparr>now := 4999999\<rparr>) = ''23h 59m''"
    by (simp add: get_uptime_parts e s)
  have u: "uptime_spec (- 1) 23 59 = ''59m''"
    by (simp add: uptime_spec_def s)
  have t1: "td_seconds (datetime_sub (now (world0\<lparr>now := 4999999\<rparr>)) (start_time bot0))
      div 3600 = 23"
    unfolding t by simp
  have t2: "td_seconds (datetime_sub (now (world0\<lparr>now := 4999999\<rparr>)) (start_time bot0))
      mod 3600 div 60 = 59"
    unfolding t by simp
  have ne: "get_uptime bot0 (world0\<lparr>now := 4999999\<rparr>) \<noteq> uptime_spec (- 1) 23 59"
    unfolding g u by simp
  from d t1 t2 g u ne show ?thesis by (intro conjI)
qed

section \<open>NotificationBroadcaster and ErrorNotifier\<close>

lemma send_each_all:
  assumes "\<forall>c\<in>set cs. \<forall>msg. send_message w c m pm dn \<noteq> Some (BaseException msg)"
  shows "send_each w m pm dn cs = (concat (map (attempt_events w m pm dn) cs), None)"
  using assms
proof (induction cs)
  case Nil
  show ?case by simp
next
  case (Cons c cs)
  then have ih: "send_each w m pm dn cs = (concat (map (attempt_events w m pm dn) cs), None)"
    by simp
  show ?case
  proof (cases "send_message w c m pm dn")
    case None
    then have "attempt_events w m pm dn c = [SendMessage c m pm dn]"
      by (simp add: attempt_events_def)
    with None show ?thesis by (simp add: ih)
  next
    case (Some e)
    with Cons.prems obtain msg where e: "e = Exception msg" by (cases e) auto
    with Some have "attempt_events w m pm dn c
        = [SendMessage c m pm dn, LoggerError (send_failed c (Exception msg))]"
      by (simp add: attempt_events_def)
    with Some e show ?thesis by (simp add: ih)
  qed
qed

lemma filter_send_attempts:
  "filter is_send (concat (map (attempt_events w m pm dn) cs)) = map (\<lambda>c. SendMessage c m pm dn) cs"
  by (induction cs) (simp_all add: attempt_events_def split: option.split)

lemma send_each_texts:
  "\<forall>ev\<in>set (fst (send_each w m pm dn cs)). is_send ev \<longrightarrow> (\<exists>c. ev = SendMessage c m pm dn)"
proof (induction cs)
  case Nil
  show ?case by simp
next
  case (Cons c cs)
  show ?case
  proof (cases "send_message w c m pm dn")
    case None
    with Cons.IH show ?thesis by (auto split: prod.splits)
  next
    case (Some e)
    with Cons.IH show ?thesis by (cases e) (auto split: prod.splits)
  qed
qed

text \<open>
  Claim C8. When the application is initialised and no delivery fails with an exception
  outside \<^verbatim>\<open>Exception\<close>, \<^verbatim>\<open>send_admin_message\<close> returns normally after one delivery attempt to
  every admin chat id, in the order of the list, each with the same message, parse mode and
  notification flag; a failed attempt is followed by its log record and the attempts to the
  remaining recipients are still made. With three admins and the second failing, the first
  and the third are attempted.
\<close>

theorem send_admin_message_attempts_all:
  assumes "application self \<noteq> None"
    and "\<forall>c\<in>set (admin_chat_ids self). \<forall>msg. send_message w c m pm dn \<noteq> Some (BaseException msg)"
  shows "send_admin_message self w m pm dn
           = (self, concat (map (attempt_events w m pm dn) (admin_chat_ids self)), None)
         \<and> filter is_send (concat (map (attempt_events w m pm dn) (admin_chat_ids self)))
           = map (\<lambda>c. SendMessage c m pm dn) (admin_chat_ids self)"
proof -
  from assms(1) obtain a where "application self = Some a" by auto
  with assms(2) show ?thesis
    by (simp add: send_admin_message_def send_each_all filter_send_attempts)
qed

lemma str_int_2: "str_int 2 = ''2''"
  by (simp add: str_int_def str_nat.simps digit_char_def)

theorem send_admin_message_attempts_all_witness:
  "send_admin_message bot0 world_flaky ''hi'' MARKDOWN_V2 False
     = (bot0,
        [SendMessage 1 ''hi'' MARKDOWN_V2 False,
         SendMessage 2 ''hi'' MARKDOWN_V2 False,
         LoggerError ''Failed to send message to admin 2: Forbidden'',
         SendMessage 3 ''hi'' MARKDOWN_V2 False], None)"
  using send_admin_message_attempts_all [of bot0 world_flaky "''hi''" MARKDOWN_V2 False]
  by (simp add: bot0_def world_flaky_def world0_def attempt_events_def send_failed_def str_int_2)

text \<open>
  Claim C10. While the application field is unset, \<^verbatim>\<open>send_admin_message\<close> logs that the bot
  is not initialised and returns: it raises nothing and attempts no delivery, whatever the
  message, the parse mode and the notification flag.
\<close>

theorem send_admin_message_uninitialized:
  "application self = None \<Longrightarrow>
     send_admin_message self w message parse_mode disable_notification
       = (self, [LoggerError ''Bot application not initialized''], None)"
  by (simp add: send_admin_message_def)

theorem send_admin_message_uninitialized_witness:
  "send_admin_message (bot0\<lparr>application := None\<rparr>) world0 ''hi'' MARKDOWN_V2 False
     = (bot0\<lparr>application := None\<rparr>, [LoggerError ''Bot application not initialized''], None)"
  using send_admin_message_uninitialized [of "bot0\<lparr>application := None\<rparr>" world0 "''hi''" MARKDOWN_V2 False]
  by (simp add: bot0_def)

lemma send_admin_message_texts:
  "\<forall>ev\<in>set (fst (snd (send_admin_message self w m pm dn))).
     is_send ev \<longrightarrow> (\<exists>c. ev = SendMessage c m pm dn)"
  using send_each_texts [of w m pm dn "admin_chat_ids self"]
  by (auto simp add: send_admin_message_def split: prod.splits)

lemma send_error_message_events:
  "set (filter is_send (fst (snd (send_error_message self w error context))))
     = set (filter is_send (fst (snd (send_admin_message self w
         (error_report error (format_exc w)) MARKDOWN_V2 False))))"
  by (auto simp add: send_error_message_def Let_def split: prod.splits option.splits exn.splits)

lemma send_error_message_texts:
  "\<forall>ev\<in>set (fst (snd (send_error_message self w error context))).
     is_send ev \<longrightarrow>
       (\<exists>c. ev = SendMessage c (error_report error (format_exc w)) MARKDOWN_V2 False)"
proof
  fix ev assume "ev \<in> set (fst (snd (send_error_message self w error context)))"
  show "is_send ev \<longrightarrow>
       (\<exists>c. ev = SendMessage c (error_report error (format_exc w)) MARKDOWN_V2 False)"
  proof
    assume s: "is_send ev"
    with \<open>ev \<in> set (fst (snd (send_error_message self w error context)))\<close>
    have "ev \<in> set (filter is_send (fst (snd (send_error_message self w error context))))"
      by simp
    then have "ev \<in> set (fst (snd (send_admin_message self w
         (error_report error (format_exc w)) MARKDOWN_V2 False)))"
      unfolding send_error_message_events by simp
    with s send_admin_message_texts
    show "\<exists>c. ev = SendMessage c (error_report error (format_exc w)) MARKDOWN_V2 False"
      by blast
  qed
qed

text \<open>
  Claim C9. In the report of \<^verbatim>\<open>send_error_message\<close> the trace stands as it is when it has at
  most 500 characters, and otherwise its first 500 characters followed by the marker
  \<open>...\<close>; a trace of 1000 characters is cut to 500 plus the marker. Every message that
  \<^verbatim>\<open>send_error_message\<close> sends is this report, built from the trace of the failure.
\<close>

theorem send_error_message_trace:
  "bounded_trace t = (if length t \<le> 500 then t else take 500 t @ ''...'')
   \<and> (length t = 1000 \<longrightarrow>
        bounded_trace t = take 500 t @ ''...'' \<and> length (bounded_trace t) = 503)
   \<and> error_report error t =
        cross_mark @ '' *Error*\<newline>\<newline>'' @ [backtick]
        @ escape_markdown (exn_str error) @ [backtick]
        @ ''\<newline>\<newline>'' @ code_fence @ ''\<newline>''
        @ (if length t \<le> 500 then t else take 500 t @ ''...'')
        @ ''\<newline>'' @ code_fence
   \<and> (\<forall>ev\<in>set (fst (snd (send_error_message self w error context))).
        is_send ev \<longrightarrow>
          (\<exists>c. ev = SendMessage c (error_report error (format_exc w)) MARKDOWN_V2 False))"
proof (intro conjI)
  show "bounded_trace t = (if length t \<le> 500 then t else take 500 t @ ''...'')"
    by (simp add: bounded_trace_def)
  show "length t = 1000 \<longrightarrow>
        bounded_trace t = take 500 t @ ''...'' \<and> length (bounded_trace t) = 503"
    by (simp add: bounded_trace_def)
  show "error_report error t =
        cross_mark @ '' *Error*\<newline>\<newline>'' @ [backtick]
        @ escape_markdown (exn_str error) @ [backtick]
        @ ''\<newline>\<newline>'' @ code_fence @ ''\<newline>''
        @ (if length t \<le> 500 then t else take 500 t @ ''...'')
        @ ''\<newline>'' @ code_fence"
    by (simp add: error_report_def bounded_trace_def Let_def)
  show "\<forall>ev\<in>set (fst (snd (send_error_message self w error context))).
        is_send ev \<longrightarrow>
          (\<exists>c. ev = SendMessage c (error_report error (format_exc w)) MARKDOWN_V2 False)"
    by (rule send_error_message_texts)
qed

theorem send_error_message_trace_witness:
  "bounded_trace (replicate 1000 CHR ''x'') = replicate 500 CHR ''x'' @ ''...''
   \<and> length (bounded_trace (replicate 1000 CHR ''x'')) = 503
   \<and> bounded_trace (replicate 500 CHR ''x'') = replicate 500 CHR ''x''
   \<and> fst (snd (send_error_message bot0 (world0\<lparr>format_exc := replicate 1000 CHR ''x''\<rparr>)
         (Exception ''boom'') ''Bot runtime''))
       = map (\<lambda>c. SendMessage c
           (error_report (Exception ''boom'') (replicate 1000 CHR ''x'')) MARKDOWN_V2 False)
           [1, 2, 3]"
proof -
  have a: "bounded_trace (replicate 1000 CHR ''x'') = replicate 500 CHR ''x'' @ ''...''
      \<and> length (bounded_trace (replicate 1000 CHR ''x'')) = 503"
    using send_error_message_trace [of "replicate 1000 CHR ''x''" "Exception ''boom''" bot0
        "world0\<lparr>format_exc := replicate 1000 CHR ''x''\<rparr>" "''Bot runtime''",
        THEN conjunct2, THEN conjunct1]
    by simp
  have b: "bounded_trace (replicate 500 CHR ''x'') = replicate 500 CHR ''x''"
    using send_error_message_trace [of "replicate 500 CHR ''x''" "Exception ''boom''" bot0
        world0 "''Bot runtime''", THEN conjunct1]
    by simp
  have c: "fst (snd (send_error_message bot0 (world0\<lparr>format_exc := replicate 1000 CHR ''x''\<rparr>)
         (Exception ''boom'') ''Bot runtime''))
       = map (\<lambda>c. SendMessage c
           (error_report (Exception ''boom'') (replicate 1000 CHR ''x'')) MARKDOWN_V2 False)
           [1, 2, 3]"
    by (simp add: send_error_message_def send_admin_message_def bot0_def world0_def Let_def)
  from a b c show ?thesis by (elim conjE) (intro conjI, assumption+)
qed

section \<open>AuthGate and the command handlers\<close>

lemma is_admin_bot0: "is_admin bot0 (effective_chat_id admin_update)"
  "\<not> is_admin bot0 (effective_chat_id stranger_update)"
  by (simp_all add: is_admin_def bot0_def admin_update_def stranger_update_def)

text \<open>
  Claim C2, as the code has it. For a sender that is not in the admin list, the handlers of
  the commands (\<^verbatim>\<open>start_command\<close>, \<^verbatim>\<open>status_command\<close>, \<^verbatim>\<open>logs_command\<close>) reply with exactly
  the unauthorized message and do nothing else, and the handler of non-command text
  (\<^verbatim>\<open>handle_message\<close>) returns without any reply. In all four the bot is left as it was, no
  collaborator is called, the log file is not touched, and the outcome does not depend on
  the bot's status or on the surroundings.
\<close>

theorem unauthorized_rejected:
  "\<not> is_admin self (effective_chat_id update) \<Longrightarrow>
     start_command self w update context = (self, [ReplyText unauthorized_text None], None)
     \<and> status_command self w update context = (self, [ReplyText unauthorized_text None], None)
     \<and> logs_command self w update context = (self, [ReplyText unauthorized_text None], None)
     \<and> handle_message self w update context = (self, [], None)"
  by (simp add: start_command_def status_command_def logs_command_def handle_message_def)

theorem unauthorized_rejected_witness:
  "start_command bot0 world0 stranger_update \<lparr>args = []\<rparr>
       = (bot0, [ReplyText unauthorized_text None], None)
   \<and> status_command bot0 world_storage_down stranger_update \<lparr>args = []\<rparr>
       = (bot0, [ReplyText unauthorized_text None], None)
   \<and> logs_command bot0 world_logs stranger_update \<lparr>args = [''5'']\<rparr>
       = (bot0, [ReplyText unauthorized_text None], None)
   \<and> handle_message bot0 world0 stranger_update \<lparr>args = []\<rparr> = (bot0, [], None)"
  using unauthorized_rejected [OF is_admin_bot0(2), of world0 "\<lparr>args = []\<rparr>"]
    unauthorized_rejected [OF is_admin_bot0(2), of world_storage_down "\<lparr>args = []\<rparr>"]
    unauthorized_rejected [OF is_admin_bot0(2), of world_logs "\<lparr>args = [''5'']\<rparr>"]
  by simp

text \<open>
  Claim C2 as stated fails for non-command text: to a sender that is not an admin
  \<^verbatim>\<open>handle_message\<close> sends no reply at all, so the reply is not the unauthorized message.
\<close>

theorem handle_message_silent_counterexample:
  "\<not> is_admin bot0 (effective_chat_id stranger_update)
   \<and> handle_message bot0 world0 stranger_update \<lparr>args = []\<rparr>
       \<noteq> (bot0, [ReplyText unauthorized_text None], None)
   \<and> fst (snd (handle_message bot0 world0 stranger_update \<lparr>args = []\<rparr>)) = []"
  by (simp add: handle_message_def is_admin_bot0)

text \<open>
  Claim C1, as the code has it. \<^verbatim>\<open>status_command\<close> awaits the storage collaborator's count
  outside any \<^verbatim>\<open>try\<close>: when the count fails, the failure propagates out of the handler and
  no reply is sent; when it succeeds with \<open>n\<close>, the reply is the status text followed by the
  line \<open>Total OTPs: n\<close>.
\<close>

theorem status_command_storage:
  "is_admin self (effective_chat_id update) \<Longrightarrow>
     (\<forall>e. get_otp_count w = Inl e \<longrightarrow>
          status_command self w update context = (self, [StorageGetOtpCount], Some e))
     \<and> (\<forall>n. get_otp_count w = Inr n \<longrightarrow>
          status_command self w update context
            = (self, [StorageGetOtpCount,
                      ReplyText (status_head self w @ ''Total OTPs: '' @ str_int n @ ''\<newline>'')
                        (Some MARKDOWN_V2)], None))"
  by (simp add: status_command_def Let_def)

lemma str_int_7: "str_int 7 = ''7''"
  by (simp add: str_int_def str_nat.simps digit_char_def)

theorem status_command_storage_witness:
  "status_command bot0 world_storage_down admin_update \<lparr>args = []\<rparr>
       = (bot0, [StorageGetOtpCount], Some (Exception ''storage unavailable''))
   \<and> status_command bot0 world0 admin_update \<lparr>args = []\<rparr>
       = (bot0, [StorageGetOtpCount,
                 ReplyText (status_head bot0 world0 @ ''Total OTPs: 7\<newline>'')
                   (Some MARKDOWN_V2)], None)"
  using status_command_storage [OF is_admin_bot0(1), of world_storage_down "\<lparr>args = []\<rparr>"]
    status_command_storage [OF is_admin_bot0(1), of world0 "\<lparr>args = []\<rparr>"]
  by (simp add: world_storage_down_def world0_def str_int_7)

text \<open>
  Claim C1 as stated fails when the storage is unavailable: the outcome of the command for
  an admin is the storage's exception, after the storage call and without any reply.
\<close>

theorem status_command_storage_counterexample:
  "is_admin bot0 (effective_chat_id admin_update)
   \<and> status_command bot0 world_storage_down admin_update \<lparr>args = []\<rparr>
       = (bot0, [StorageGetOtpCount], Some (Exception ''storage unavailable''))"
  by (simp add: status_command_def is_admin_bot0 world_storage_down_def Let_def)

lemma py_int_samples:
  "py_int ''500'' = Some 500" "py_int ''0'' = Some 0" "py_int ''-3'' = Some (- 3)"
  "py_int ''20'' = Some 20" "py_int ''2'' = Some 2"
  "py_int ''abc'' = None" "py_int ''1.5'' = None" "py_int [] = None"
  "py_int [CHR 0x1C, CHR ''7''] = None" "py_int [CHR 0xA0, CHR ''7'', CHR 0x85] = Some 7"
  by (simp_all add: py_int_def max_str_digits_def strip_def is_space_def parse_unsigned_def
      is_digit_def digit_val_def)

lemma py_slice_last:
  assumes "1 \<le> n"
  shows "py_slice_from (- n) ls = drop (length ls - min (nat n) (length ls)) ls"
proof -
  have "nat (max 0 (int (length ls) - n)) = length ls - min (nat n) (length ls)"
    using assms by (simp add: max_def min_def) linarith
  with assms show ?thesis by (simp add: py_slice_from_def Let_def)
qed

lemma py_slice_last_nonempty:
  assumes "1 \<le> n" and "ls \<noteq> []"
  shows "py_slice_from (- n) ls \<noteq> []"
proof -
  from assms have "0 < min (nat n) (length ls)" by simp
  then have "length ls - min (nat n) (length ls) < length ls" using assms(2) by simp
  then show ?thesis unfolding py_slice_last [OF assms(1)] by simp
qed

text \<open>
  Claim C3, as the code has it. For an admin's \<^verbatim>\<open>/logs\<close> with an argument: an argument that
  \<^verbatim>\<open>int\<close> does not accept is rejected with the format error and the log file is not
  accessed; an integer argument \<open>n\<close> is never rejected, it is clamped to
  \<open>max 1 (min n 100)\<close>, which lies in \<open>1..100\<close>, and the log is tailed with the clamped value.
\<close>

theorem logs_argument:
  assumes "is_admin self (effective_chat_id update)" and "args context = a # rest"
  shows "(py_int a = None \<longrightarrow>
            logs_command self w update context
              = (self, [ReplyText invalid_number_text None], None))
         \<and> (\<forall>n. py_int a = Some n \<longrightarrow>
              logs_command self w update context = logs_tail self w (max 1 (min n 100))
              \<and> 1 \<le> max 1 (min n 100) \<and> max 1 (min n 100) \<le> 100)"
  using assms by (simp add: logs_command_def)

theorem logs_argument_witness:
  "logs_command bot0 world_logs admin_update \<lparr>args = [''abc'']\<rparr>
       = (bot0, [ReplyText invalid_number_text None], None)
   \<and> logs_command bot0 world_logs admin_update \<lparr>args = [[CHR 0x1C, CHR ''7'']]\<rparr>
       = (bot0, [ReplyText invalid_number_text None], None)
   \<and> logs_command bot0 world_logs admin_update \<lparr>args = [''500'']\<rparr>
       = logs_tail bot0 world_logs 100
   \<and> logs_command bot0 world_logs admin_update \<lparr>args = [''0'']\<rparr>
       = logs_tail bot0 world_logs 1
   \<and> logs_command bot0 world_logs admin_update \<lparr>args = [''-3'']\<rparr>
       = logs_tail bot0 world_logs 1"
  using logs_argument [OF is_admin_bot0(1), of "\<lparr>args = [''abc'']\<rparr>" "''abc''" "[]" world_logs]
    logs_argument [OF is_admin_bot0(1), of "\<lparr>args = [[CHR 0x1C, CHR ''7'']]\<rparr>"
      "[CHR 0x1C, CHR ''7'']" "[]" world_logs]
    logs_argument [OF is_admin_bot0(1), of "\<lparr>args = [''500'']\<rparr>" "''500''" "[]" world_logs]
    logs_argument [OF is_admin_bot0(1), of "\<lparr>args = [''0'']\<rparr>" "''0''" "[]" world_logs]
    logs_argument [OF is_admin_bot0(1), of "\<lparr>args = [''-3'']\<rparr>" "''-3''" "[]" world_logs]
  by (simp add: py_int_samples)

lemma logs_tail_world_logs:
  "1 \<le> n \<Longrightarrow> 5 \<le> n \<Longrightarrow> logs_tail bot0 world_logs n
     = (bot0, [PathExists ''./logs/bot.log'', ReadLines ''./logs/bot.log'',
          ReplyText (page_emoji @ '' *Last 5 log lines*\<newline>\<newline>'' @ code_fence
            @ ''\<newline>a\<newline>b\<newline>c\<newline>d\<newline>e\<newline>\<newline>'' @ code_fence)
            (Some MARKDOWN_V2)], None)"
  by (simp add: logs_tail_def Let_def os_getenv_def world_logs_def world0_def py_slice_last
      str_nat.simps digit_char_def)

text \<open>
  Claim C3 as stated fails at the argument \<open>500\<close>, an integer outside \<open>1..100\<close>: the reply is
  not a format error, the log file is read and its lines are replied.
\<close>

theorem logs_out_of_range_counterexample:
  "is_admin bot0 (effective_chat_id admin_update)
   \<and> py_int ''500'' = Some 500
   \<and> logs_command bot0 world_logs admin_update \<lparr>args = [''500'']\<rparr>
       = (bot0, [PathExists ''./logs/bot.log'', ReadLines ''./logs/bot.log'',
            ReplyText (page_emoji @ '' *Last 5 log lines*\<newline>\<newline>'' @ code_fence
              @ ''\<newline>a\<newline>b\<newline>c\<newline>d\<newline>e\<newline>\<newline>'' @ code_fence)
              (Some MARKDOWN_V2)], None)"
  by (simp add: is_admin_bot0 py_int_samples logs_command_def logs_tail_world_logs)

text \<open>
  Claim C6. For a line count \<open>n\<close> in \<open>1..100\<close>: when the log file does not exist the reply is
  the not-found message (and the file is not read); when it exists with no line the reply is
  the empty message; otherwise the reply carries exactly the last \<open>min n (length ls)\<close> lines
  of the file, in the order of the file. \<^verbatim>\<open>logs_command\<close> tails with 20 when an admin gives
  no argument and with \<open>n\<close> when the argument reads as \<open>n\<close>.
\<close>

theorem logs_tail_reply:
  assumes "1 \<le> n" and "n \<le> 100"
  shows "(files w (os_getenv w ''LOG_FILE'' ''./logs/bot.log'') = None \<longrightarrow>
            logs_tail self w n
              = (self, [PathExists (os_getenv w ''LOG_FILE'' ''./logs/bot.log''),
                        ReplyText log_not_found_text None], None))
         \<and> (files w (os_getenv w ''LOG_FILE'' ''./logs/bot.log'') = Some [] \<longrightarrow>
            logs_tail self w n
              = (self, [PathExists (os_getenv w ''LOG_FILE'' ''./logs/bot.log''),
                        ReadLines (os_getenv w ''LOG_FILE'' ''./logs/bot.log''),
                        ReplyText log_empty_text None], None))
         \<and> (\<forall>ls. files w (os_getenv w ''LOG_FILE'' ''./logs/bot.log'') = Some ls \<and> ls \<noteq> [] \<longrightarrow>
              (let k = min (nat n) (length ls); tail = drop (length ls - k) ls
               in length tail = k
                  \<and> logs_tail self w n
                    = (self, [PathExists (os_getenv w ''LOG_FILE'' ''./logs/bot.log''),
                              ReadLines (os_getenv w ''LOG_FILE'' ''./logs/bot.log''),
                              ReplyText (page_emoji @ '' *Last '' @ str_nat k
                                @ '' log lines*\<newline>\<newline>'' @ code_fence @ ''\<newline>''
                                @ concat tail @ ''\<newline>'' @ code_fence)
                                (Some MARKDOWN_V2)], None)))
         \<and> (is_admin self (effective_chat_id update) \<and> args context = [] \<longrightarrow>
              logs_command self w update context = logs_tail self w 20)
         \<and> (is_admin self (effective_chat_id update) \<and> args context \<noteq> []
              \<and> py_int (hd (args context)) = Some n \<longrightarrow>
              logs_command self w update context = logs_tail self w n)"
proof (intro conjI allI impI)
  assume "files w (os_getenv w ''LOG_FILE'' ''./logs/bot.log'') = None"
  then show "logs_tail self w n
      = (self, [PathExists (os_getenv w ''LOG_FILE'' ''./logs/bot.log''),
                ReplyText log_not_found_text None], None)"
    by (simp add: logs_tail_def Let_def)
next
  assume "files w (os_getenv w ''LOG_FILE'' ''./logs/bot.log'') = Some []"
  then show "logs_tail self w n
      = (self, [PathExists (os_getenv w ''LOG_FILE'' ''./logs/bot.log''),
                ReadLines (os_getenv w ''LOG_FILE'' ''./logs/bot.log''),
                ReplyText log_empty_text None], None)"
    by (simp add: logs_tail_def Let_def py_slice_from_def)
next
  fix ls
  assume a: "files w (os_getenv w ''LOG_FILE'' ''./logs/bot.log'') = Some ls \<and> ls \<noteq> []"
  have ne: "py_slice_from (- n) ls \<noteq> []"
    using assms(1) a by (simp add: py_slice_last_nonempty)
  have len: "length (drop (length ls - min (nat n) (length ls)) ls) = min (nat n) (length ls)"
    by simp
  have "logs_tail self w n
      = (self, [PathExists (os_getenv w ''LOG_FILE'' ''./logs/bot.log''),
                ReadLines (os_getenv w ''LOG_FILE'' ''./logs/bot.log''),
                ReplyText (page_emoji @ '' *Last '' @ str_nat (length (py_slice_from (- n) ls))
                  @ '' log lines*\<newline>\<newline>'' @ code_fence @ ''\<newline>''
                  @ concat (py_slice_from (- n) ls) @ ''\<newline>'' @ code_fence)
                  (Some MARKDOWN_V2)], None)"
    using a ne by (simp add: logs_tail_def Let_def)
  then show "let k = min (nat n) (length ls); tail = drop (length ls - k) ls
       in length tail = k
          \<and> logs_tail self w n
            = (self, [PathExists (os_getenv w ''LOG_FILE'' ''./logs/bot.log''),
                      ReadLines (os_getenv w ''LOG_FILE'' ''./logs/bot.log''),
                      ReplyText (page_emoji @ '' *Last '' @ str_nat k
                        @ '' log lines*\<newline>\<newline>'' @ code_fence @ ''\<newline>''
                        @ concat tail @ ''\<newline>'' @ code_fence)
                        (Some MARKDOWN_V2)], None)"
    unfolding Let_def py_slice_last [OF assms(1)] len by simp
next
  assume "is_admin self (effective_chat_id update) \<and> args context = []"
  then show "logs_command self w update context = logs_tail self w 20"
    by (simp add: logs_command_def)
next
  assume "is_admin self (effective_chat_id update) \<and> args context \<noteq> []
      \<and> py_int (hd (args context)) = Some n"
  then show "logs_command self w update context = logs_tail self w n"
    using assms by (simp add: logs_command_def)
qed

theorem logs_tail_reply_witness:
  "logs_command bot0 world_logs admin_update \<lparr>args = []\<rparr>
       = (bot0, [PathExists ''./logs/bot.log'', ReadLines ''./logs/bot.log'',
            ReplyText (page_emoji @ '' *Last 5 log lines*\<newline>\<newline>'' @ code_fence
              @ ''\<newline>a\<newline>b\<newline>c\<newline>d\<newline>e\<newline>\<newline>'' @ code_fence)
              (Some MARKDOWN_V2)], None)
   \<and> logs_command bot0 world_logs admin_update \<lparr>args = [''2'']\<rparr>
       = (bot0, [PathExists ''./logs/bot.log'', ReadLines ''./logs/bot.log'',
            ReplyText (page_emoji @ '' *Last 2 log lines*\<newline>\<newline>'' @ code_fence
              @ ''\<newline>d\<newline>e\<newline>\<newline>'' @ code_fence)
              (Some MARKDOWN_V2)], None)
   \<and> logs_command bot0 world0 admin_update \<lparr>args = []\<rparr>
       = (bot0, [PathExists ''./logs/bot.log'', ReplyText log_not_found_text None], None)
   \<and> logs_command bot0 world_empty_log admin_update \<lparr>args = []\<rparr>
       = (bot0, [PathExists ''./logs/bot.log'', ReadLines ''./logs/bot.log'',
            ReplyText log_empty_text None], None)"
proof -
  have p: "os_getenv world_logs ''LOG_FILE'' ''./logs/bot.log'' = ''./logs/bot.log''"
    "os_getenv world0 ''LOG_FILE'' ''./logs/bot.log'' = ''./logs/bot.log''"
    "os_getenv world_empty_log ''LOG_FILE'' ''./logs/bot.log'' = ''./logs/bot.log''"
    by (simp_all add: os_getenv_def world_logs_def world_empty_log_def world0_def)
  have f: "files world_logs ''./logs/bot.log''
      = Some [''a\<newline>'', ''b\<newline>'', ''c\<newline>'', ''d\<newline>'', ''e\<newline>'']"
    "files world0 ''./logs/bot.log'' = None"
    "files world_empty_log ''./logs/bot.log'' = Some []"
    by (simp_all add: world_logs_def world_empty_log_def world0_def)
  have s: "str_nat (Suc (Suc (Suc (Suc (Suc 0))))) = ''5''" "str_nat (Suc (Suc 0)) = ''2''"
    by (simp_all add: str_nat.simps digit_char_def)
  have c1: "logs_command bot0 world_logs admin_update \<lparr>args = []\<rparr>
       = (bot0, [PathExists ''./logs/bot.log'', ReadLines ''./logs/bot.log'',
            ReplyText (page_emoji @ '' *Last 5 log lines*\<newline>\<newline>'' @ code_fence
              @ ''\<newline>a\<newline>b\<newline>c\<newline>d\<newline>e\<newline>\<newline>'' @ code_fence)
              (Some MARKDOWN_V2)], None)"
    using logs_tail_reply [of 20 world_logs bot0 admin_update "\<lparr>args = []\<rparr>"]
    by (simp add: p f s is_admin_bot0 Let_def)
  have c2: "logs_command bot0 world_logs admin_update \<lparr>args = [''2'']\<rparr>
       = (bot0, [PathExists ''./logs/bot.log'', ReadLines ''./logs/bot.log'',
            ReplyText (page_emoji @ '' *Last 2 log lines*\<newline>\<newline>'' @ code_fence
              @ ''\<newline>d\<newline>e\<newline>\<newline>'' @ code_fence)
              (Some MARKDOWN_V2)], None)"
    using logs_tail_reply [of 2 world_logs bot0 admin_update "\<lparr>args = [''2'']\<rparr>"]
    by (simp add: p f s is_admin_bot0 py_int_samples Let_def)
  have c3: "logs_command bot0 world0 admin_update \<lparr>args = []\<rparr>
       = (bot0, [PathExists ''./logs/bot.log'', ReplyText log_not_found_text None], None)"
    using logs_tail_reply [of 20 world0 bot0 admin_update "\<lparr>args = []\<rparr>"]
    by (simp add: p f is_admin_bot0)
  have c4: "logs_command bot0 world_empty_log admin_update \<lparr>args = []\<rparr>
       = (bot0, [PathExists ''./logs/bot.log'', ReadLines ''./logs/bot.log'',
            ReplyText log_empty_text None], None)"
    using logs_tail_reply [of 20 world_empty_log bot0 admin_update "\<lparr>args = []\<rparr>"]
    by (simp add: p f is_admin_bot0)
  from c1 c2 c3 c4 show ?thesis by (intro conjI)
qed

end
